theory Spec2Isabelle
  imports Main
begin

section \<open>Exceptions\<close>

text \<open>
  Every \<^verbatim>\<open>raise\<close> of \<^verbatim>\<open>backend/server.py\<close> is a value of \<open>exn\<close>, and a
  computation that may raise returns \<open>exn + 'a\<close> (\<open>Inl\<close> the exception).
  \<open>HTTPException c d\<close> is FastAPI's exception with \<^verbatim>\<open>status_code=c, detail=d\<close>;
  \<open>KeyError k\<close> is a failed dictionary subscript; \<open>Fault m\<close> is any other exception
  thrown by a collaborator (database driver, agent library), named by its message.
  Python's \<^verbatim>\<open>str(e)\<close> is defined by the libraries that declare the exceptions, so the
  handlers take it as the parameter \<open>str\<close>.
\<close>

datatype exn = HTTPException nat string | KeyError string | Fault string

section \<open>Wallpaper models\<close>

type_synonym datetime = int

text \<open>\<^verbatim>\<open>class WallpaperRequest(BaseModel)\<close>\<close>

record wallpaper_request =
  prompt :: string
  aspect_ratio :: string
  megapixels :: string
  style :: "string option"

text \<open>\<^verbatim>\<open>class WallpaperResponse(BaseModel)\<close>\<close>

record wallpaper_response =
  resp_success :: bool
  resp_id :: string
  resp_prompt :: string
  resp_image_url :: "string option"
  resp_preview_url :: "string option"
  resp_created_at :: datetime
  resp_error :: "string option"

text \<open>\<^verbatim>\<open>class Wallpaper(BaseModel)\<close>, also the shape of a document of \<^verbatim>\<open>db.wallpapers\<close>.\<close>

record wallpaper =
  w_id :: string
  w_prompt :: string
  w_aspect_ratio :: string
  w_image_url :: string
  w_image_data :: string
  w_created_at :: datetime

text \<open>
  The dictionary returned by the image generator, with the four keys the pipeline reads;
  \<open>None\<close> is an absent key.
\<close>

record image_result =
  ir_success :: "bool option"
  ir_error :: "string option"
  ir_image_url :: "string option"
  ir_image_data :: "string option"

section \<open>The generation store\<close>

text \<open>
  \<open>wallpapers\<close> is the collection \<^verbatim>\<open>db.wallpapers\<close> in insertion order. \<open>db_error = Some m\<close>
  is a store whose driver raises an exception with message \<open>m\<close> on every operation.
  \<open>generator_calls\<close> records the arguments of every call of \<^verbatim>\<open>generate_ai_image\<close> made by
  the pipeline; no source variable holds it, it only makes the calls observable.
\<close>

record gen_state =
  wallpapers :: "wallpaper list"
  db_error :: "string option"
  generator_calls :: "(string \<times> string \<times> string) list"

text \<open>\<^verbatim>\<open>db.wallpapers.insert_one(doc)\<close>\<close>

definition insert_one :: "wallpaper \<Rightarrow> gen_state \<Rightarrow> exn + gen_state" where
  "insert_one doc s =
     (case db_error s of
        Some m \<Rightarrow> Inl (Fault m)
      | None \<Rightarrow> Inr (s\<lparr>wallpapers := wallpapers s @ [doc]\<rparr>))"

text \<open>
  \<^verbatim>\<open>db.wallpapers.find().sort("created_at", -1).to_list(100)\<close>: all documents by descending
  \<^verbatim>\<open>created_at\<close>, cut after 100.
\<close>

definition find_sort_to_list :: "gen_state \<Rightarrow> exn + wallpaper list" where
  "find_sort_to_list s =
     (case db_error s of
        Some m \<Rightarrow> Inl (Fault m)
      | None \<Rightarrow> Inr (take 100 (sort_key (\<lambda>w. - w_created_at w) (wallpapers s))))"

text \<open>\<^verbatim>\<open>db.wallpapers.find_one({"id": wallpaper_id})\<close>\<close>

definition find_one :: "string \<Rightarrow> gen_state \<Rightarrow> exn + wallpaper option" where
  "find_one wallpaper_id s =
     (case db_error s of
        Some m \<Rightarrow> Inl (Fault m)
      | None \<Rightarrow> Inr (find (\<lambda>w. w_id w = wallpaper_id) (wallpapers s)))"

section \<open>Wallpaper generation endpoints\<close>

definition enhanced_prompt :: "string \<Rightarrow> string" where
  "enhanced_prompt p =
     ''Phone wallpaper, '' @ p @
     '', high resolution, vibrant colors, mobile-optimized, stunning visual''"

definition not_configured :: string where
  "not_configured =
     ''AI image generation is not configured. Please set up a real image generation service (e.g., DALL-E, Midjourney, Stable Diffusion) to generate images.''"

text \<open>
  \<^verbatim>\<open>generate_ai_image\<close>: the body of its \<^verbatim>\<open>try\<close> builds the enhanced prompt and returns
  the failure dictionary; nothing in it can raise, so the \<^verbatim>\<open>except\<close> branch is never taken.
\<close>

definition generate_ai_image :: "string \<Rightarrow> string \<Rightarrow> string \<Rightarrow> image_result" where
  "generate_ai_image p ar mp =
     (let ep = enhanced_prompt p in
      \<lparr>ir_success = Some False, ir_error = Some not_configured,
       ir_image_url = None, ir_image_data = None\<rparr>)"

text \<open>
  The \<^verbatim>\<open>try\<close> body of \<^verbatim>\<open>generate_wallpaper\<close>, with the generator it awaits as the
  parameter \<open>gen\<close>. \<open>wallpaper_id\<close> is the value of \<^verbatim>\<open>str(uuid.uuid4())\<close>, \<open>t_doc\<close> and
  \<open>t_resp\<close> are the two readings of \<^verbatim>\<open>datetime.utcnow\<close> taken by the default factories of
  \<^verbatim>\<open>Wallpaper\<close> and \<^verbatim>\<open>WallpaperResponse\<close>.
\<close>

definition generate_wallpaper_try ::
  "(string \<Rightarrow> string \<Rightarrow> string \<Rightarrow> exn + image_result) \<Rightarrow> string \<Rightarrow> datetime \<Rightarrow> datetime \<Rightarrow>
   wallpaper_request \<Rightarrow> gen_state \<Rightarrow> (exn + wallpaper_response) \<times> gen_state" where
  "generate_wallpaper_try gen wallpaper_id t_doc t_resp request s =
     (let s1 = s\<lparr>generator_calls := generator_calls s @
                  [(prompt request, aspect_ratio request, megapixels request)]\<rparr> in
      case gen (prompt request) (aspect_ratio request) (megapixels request) of
        Inl e \<Rightarrow> (Inl e, s1)
      | Inr image_result \<Rightarrow>
          (case ir_success image_result of
             None \<Rightarrow> (Inl (KeyError ''success''), s1)
           | Some False \<Rightarrow>
               (Inl (HTTPException 503
                  (case ir_error image_result of
                     Some error_msg \<Rightarrow> error_msg
                   | None \<Rightarrow> ''Failed to generate image'')), s1)
           | Some True \<Rightarrow>
               (case ir_image_url image_result of
                  None \<Rightarrow> (Inl (KeyError ''image_url''), s1)
                | Some url \<Rightarrow>
                    (case ir_image_data image_result of
                       None \<Rightarrow> (Inl (KeyError ''image_data''), s1)
                     | Some data \<Rightarrow>
                         (case insert_one
                                 \<lparr>w_id = wallpaper_id, w_prompt = prompt request,
                                  w_aspect_ratio = aspect_ratio request,
                                  w_image_url = url, w_image_data = data,
                                  w_created_at = t_doc\<rparr> s1 of
                            Inl e \<Rightarrow> (Inl e, s1)
                          | Inr s2 \<Rightarrow>
                              (Inr \<lparr>resp_success = True, resp_id = wallpaper_id,
                                    resp_prompt = prompt request,
                                    resp_image_url = Some url,
                                    resp_preview_url = Some url,
                                    resp_created_at = t_resp,
                                    resp_error = None\<rparr>, s2))))))"

text \<open>
  The two handlers of \<^verbatim>\<open>generate_wallpaper\<close>: \<^verbatim>\<open>except HTTPException: raise\<close>, then
  \<^verbatim>\<open>except Exception as e: raise HTTPException(status_code=500, detail=str(e))\<close>.
\<close>

fun reraise_http :: "(exn \<Rightarrow> string) \<Rightarrow> exn \<Rightarrow> exn" where
  "reraise_http str (HTTPException c d) = HTTPException c d"
| "reraise_http str e = HTTPException 500 (str e)"

definition generate_wallpaper_via ::
  "(exn \<Rightarrow> string) \<Rightarrow> (string \<Rightarrow> string \<Rightarrow> string \<Rightarrow> exn + image_result) \<Rightarrow> string \<Rightarrow>
   datetime \<Rightarrow> datetime \<Rightarrow> wallpaper_request \<Rightarrow> gen_state \<Rightarrow>
   (exn + wallpaper_response) \<times> gen_state" where
  "generate_wallpaper_via str gen wallpaper_id t_doc t_resp request s =
     (case generate_wallpaper_try gen wallpaper_id t_doc t_resp request s of
        (Inl e, s') \<Rightarrow> (Inl (reraise_http str e), s')
      | (Inr r, s') \<Rightarrow> (Inr r, s'))"

text \<open>\<^verbatim>\<open>POST /wallpapers/generate\<close>: the pipeline with the generator the source calls.\<close>

definition generate_wallpaper ::
  "(exn \<Rightarrow> string) \<Rightarrow> string \<Rightarrow> datetime \<Rightarrow> datetime \<Rightarrow> wallpaper_request \<Rightarrow> gen_state \<Rightarrow>
   (exn + wallpaper_response) \<times> gen_state" where
  "generate_wallpaper str =
     generate_wallpaper_via str (\<lambda>p ar mp. Inr (generate_ai_image p ar mp))"

text \<open>The \<^verbatim>\<open>WallpaperResponse\<close> built from a stored document by both retrieval handlers.\<close>

definition response_of :: "wallpaper \<Rightarrow> wallpaper_response" where
  "response_of w =
     \<lparr>resp_success = True, resp_id = w_id w, resp_prompt = w_prompt w,
      resp_image_url = Some (w_image_url w), resp_preview_url = Some (w_image_url w),
      resp_created_at = w_created_at w, resp_error = None\<rparr>"

text \<open>
  \<^verbatim>\<open>GET /wallpapers\<close>: on any exception the handler logs and returns the empty list.
\<close>

definition get_wallpapers :: "gen_state \<Rightarrow> exn + wallpaper_response list" where
  "get_wallpapers s =
     (case find_sort_to_list s of
        Inl e \<Rightarrow> Inr []
      | Inr ws \<Rightarrow> Inr (map response_of ws))"

text \<open>
  \<^verbatim>\<open>GET /wallpapers/{wallpaper_id}\<close>: the 404 is raised inside the \<^verbatim>\<open>try\<close>, whose only
  handler is \<^verbatim>\<open>except Exception as e: raise HTTPException(status_code=500, detail=str(e))\<close>.
\<close>

definition get_wallpaper_try :: "string \<Rightarrow> gen_state \<Rightarrow> exn + wallpaper_response" where
  "get_wallpaper_try wallpaper_id s =
     (case find_one wallpaper_id s of
        Inl e \<Rightarrow> Inl e
      | Inr None \<Rightarrow> Inl (HTTPException 404 ''Wallpaper not found'')
      | Inr (Some w) \<Rightarrow> Inr (response_of w))"

definition get_wallpaper :: "(exn \<Rightarrow> string) \<Rightarrow> string \<Rightarrow> gen_state \<Rightarrow> exn + wallpaper_response" where
  "get_wallpaper str wallpaper_id s =
     (case get_wallpaper_try wallpaper_id s of
        Inl e \<Rightarrow> Inl (HTTPException 500 (str e))
      | Inr r \<Rightarrow> Inr r)"

section \<open>Classification of responses\<close>

text \<open>The conditions a caller can tell apart, by status code.\<close>

definition is_not_found :: "exn + 'a \<Rightarrow> bool" where
  "is_not_found r = (case r of Inl (HTTPException c d) \<Rightarrow> c = 404 | _ \<Rightarrow> False)"

definition is_internal_error :: "exn + 'a \<Rightarrow> bool" where
  "is_internal_error r = (case r of Inl (HTTPException c d) \<Rightarrow> c = 500 | _ \<Rightarrow> False)"

definition is_service_unavailable :: "exn + 'a \<Rightarrow> bool" where
  "is_service_unavailable r = (case r of Inl (HTTPException c d) \<Rightarrow> c = 503 | _ \<Rightarrow> False)"

definition is_caller_error :: "exn + 'a \<Rightarrow> bool" where
  "is_caller_error r =
     (case r of Inl (HTTPException c d) \<Rightarrow> 400 \<le> c \<and> c < 500 | _ \<Rightarrow> False)"

section \<open>Agent models\<close>

text \<open>
  The classes \<^verbatim>\<open>SearchAgent\<close> and \<^verbatim>\<open>ChatAgent\<close> of \<^verbatim>\<open>ai_agents.agents\<close>.
\<close>

datatype agent_kind = Search | Chat

text \<open>A value stored in a metadata dictionary.\<close>

datatype pyval = PInt int | PStr string | PBool bool | PNone

type_synonym pydict = "(string \<times> pyval) list"

text \<open>\<^verbatim>\<open>d.get(k, default)\<close>\<close>

definition dict_get :: "pydict \<Rightarrow> string \<Rightarrow> pyval \<Rightarrow> pyval" where
  "dict_get d k dflt = (case map_of d k of None \<Rightarrow> dflt | Some v \<Rightarrow> v)"

text \<open>The object an agent's \<^verbatim>\<open>execute\<close> returns, with the four attributes the handlers read.\<close>

record outcome =
  o_success :: bool
  o_content :: string
  o_metadata :: pydict
  o_error :: "string option"

text \<open>\<^verbatim>\<open>class ChatRequest(BaseModel)\<close>\<close>

record chat_request =
  message :: string
  agent_type :: string
  req_context :: "pydict option"

text \<open>\<^verbatim>\<open>class ChatResponse(BaseModel)\<close>\<close>

record chat_response =
  cr_success :: bool
  cr_response :: string
  cr_agent_type :: string
  cr_capabilities :: "string list"
  cr_metadata :: pydict
  cr_error :: "string option"

text \<open>\<^verbatim>\<open>class SearchRequest(BaseModel)\<close>\<close>

record search_request =
  query :: string
  max_results :: int

text \<open>\<^verbatim>\<open>class SearchResponse(BaseModel)\<close>\<close>

record search_response =
  sr_success :: bool
  sr_query :: string
  sr_summary :: string
  sr_search_results :: "pydict option"
  sr_sources_count :: int
  sr_error :: "string option"

text \<open>
  The agent library is not part of the server, so its operations are parameters. An agent
  instance is a value of type \<open>'a\<close> (its internal state):
  \<^item> \<open>construct k\<close> is \<^verbatim>\<open>SearchAgent(agent_config)\<close> or \<^verbatim>\<open>ChatAgent(agent_config)\<close>: it raises
    or returns a new instance;
  \<^item> \<open>execute k a msg use_tools\<close> is \<^verbatim>\<open>a.execute(msg)\<close> (\<open>use_tools = None\<close>) or
    \<^verbatim>\<open>a.execute(msg, use_tools=True)\<close>: it raises or returns an outcome, and leaves the
    instance in a new state;
  \<^item> \<open>get_capabilities k a\<close> is \<^verbatim>\<open>a.get_capabilities()\<close>;
  \<^item> \<open>coerce_int v\<close> is the validation of the field \<^verbatim>\<open>sources_count: int\<close> on a value that is
    not an integer.
\<close>

record 'a agents_env =
  construct :: "agent_kind \<Rightarrow> exn + 'a"
  execute :: "agent_kind \<Rightarrow> 'a \<Rightarrow> string \<Rightarrow> bool option \<Rightarrow> (exn + outcome) \<times> 'a"
  get_capabilities :: "agent_kind \<Rightarrow> 'a \<Rightarrow> exn + string list"
  coerce_int :: "pyval \<Rightarrow> exn + int"

text \<open>
  The module globals \<^verbatim>\<open>search_agent\<close> and \<^verbatim>\<open>chat_agent\<close> (\<open>None\<close> until first use).
  \<open>constructions\<close> lists the kinds of the instances constructed so far, oldest first; no
  source variable holds it, it only makes the constructor calls observable.
\<close>

record 'a registry =
  search_agent :: "'a option"
  chat_agent :: "'a option"
  constructions :: "agent_kind list"

section \<open>AI agent routes\<close>

text \<open>A constructor call whose instance is assigned to the global of its kind.\<close>

definition set_agent :: "agent_kind \<Rightarrow> 'a \<Rightarrow> 'a registry \<Rightarrow> 'a registry" where
  "set_agent k a w =
     (case k of Search \<Rightarrow> w\<lparr>search_agent := Some a\<rparr> | Chat \<Rightarrow> w\<lparr>chat_agent := Some a\<rparr>)"

definition create_agent :: "'a agents_env \<Rightarrow> agent_kind \<Rightarrow> 'a registry \<Rightarrow> exn + 'a registry" where
  "create_agent env k w =
     (case construct env k of
        Inl e \<Rightarrow> Inl e
      | Inr a \<Rightarrow> Inr (set_agent k a (w\<lparr>constructions := constructions w @ [k]\<rparr>)))"

text \<open>\<^verbatim>\<open>chat_with_agent\<close>, "Init agents if needed".\<close>

definition chat_init :: "'a agents_env \<Rightarrow> string \<Rightarrow> 'a registry \<Rightarrow> exn + 'a registry" where
  "chat_init env ty w =
     (if ty = ''search'' \<and> search_agent w = None then create_agent env Search w
      else if ty = ''chat'' \<and> chat_agent w = None then create_agent env Chat w
      else Inr w)"

text \<open>
  \<^verbatim>\<open>chat_with_agent\<close>, "Select agent": the selected global, together with its class.
\<close>

definition chat_select :: "string \<Rightarrow> 'a registry \<Rightarrow> (agent_kind \<times> 'a) option" where
  "chat_select ty w =
     (if ty = ''search'' then map_option (Pair Search) (search_agent w)
      else map_option (Pair Chat) (chat_agent w))"

text \<open>
  The \<^verbatim>\<open>try\<close> body of \<^verbatim>\<open>chat_with_agent\<close>. The instance that \<^verbatim>\<open>execute\<close> leaves behind
  stays in the global it was selected from.
\<close>

definition chat_try ::
  "'a agents_env \<Rightarrow> chat_request \<Rightarrow> 'a registry \<Rightarrow> (exn + chat_response) \<times> 'a registry" where
  "chat_try env request w =
     (case chat_init env (agent_type request) w of
        Inl e \<Rightarrow> (Inl e, w)
      | Inr w1 \<Rightarrow>
          (case chat_select (agent_type request) w1 of
             None \<Rightarrow> (Inl (HTTPException 500 ''Failed to initialize agent''), w1)
           | Some (k, agent) \<Rightarrow>
               (case execute env k agent (message request) None of
                  (res, agent') \<Rightarrow>
                    (let w2 = set_agent k agent' w1 in
                     case res of
                       Inl e \<Rightarrow> (Inl e, w2)
                     | Inr response \<Rightarrow>
                         (case get_capabilities env k agent' of
                            Inl e \<Rightarrow> (Inl e, w2)
                          | Inr caps \<Rightarrow>
                              (Inr \<lparr>cr_success = o_success response,
                                    cr_response = o_content response,
                                    cr_agent_type = agent_type request,
                                    cr_capabilities = caps,
                                    cr_metadata = o_metadata response,
                                    cr_error = o_error response\<rparr>, w2))))))"

text \<open>
  \<^verbatim>\<open>POST /chat\<close>: \<^verbatim>\<open>except Exception as e\<close> turns every exception of the body into a
  failure response.
\<close>

definition chat_with_agent ::
  "(exn \<Rightarrow> string) \<Rightarrow> 'a agents_env \<Rightarrow> chat_request \<Rightarrow> 'a registry \<Rightarrow>
   chat_response \<times> 'a registry" where
  "chat_with_agent str env request w =
     (case chat_try env request w of
        (Inl e, w') \<Rightarrow>
          (\<lparr>cr_success = False, cr_response = [], cr_agent_type = agent_type request,
            cr_capabilities = [], cr_metadata = [], cr_error = Some (str e)\<rparr>, w')
      | (Inr r, w') \<Rightarrow> (r, w'))"

definition search_prompt :: "string \<Rightarrow> string" where
  "search_prompt q =
     ''Search for information about: '' @ q @
     ''. Provide a comprehensive summary with key findings.''"

text \<open>The validation of \<^verbatim>\<open>sources_count: int\<close>.\<close>

definition validate_int :: "'a agents_env \<Rightarrow> pyval \<Rightarrow> exn + int" where
  "validate_int env v = (case v of PInt n \<Rightarrow> Inr n | _ \<Rightarrow> coerce_int env v)"

text \<open>\<^verbatim>\<open>search_and_summarize\<close>, "Init search agent if needed".\<close>

definition search_init :: "'a agents_env \<Rightarrow> 'a registry \<Rightarrow> exn + 'a registry" where
  "search_init env w =
     (if search_agent w = None then create_agent env Search w else Inr w)"

text \<open>
  The \<^verbatim>\<open>try\<close> body of \<^verbatim>\<open>search_and_summarize\<close>. Calling \<^verbatim>\<open>execute\<close> on a global that
  is still \<^verbatim>\<open>None\<close> would raise an AttributeError; the initialisation before it leaves
  no such state.
\<close>

definition search_try ::
  "'a agents_env \<Rightarrow> search_request \<Rightarrow> 'a registry \<Rightarrow> (exn + search_response) \<times> 'a registry" where
  "search_try env request w =
     (case search_init env w of
        Inl e \<Rightarrow> (Inl e, w)
      | Inr w1 \<Rightarrow>
          (case search_agent w1 of
             None \<Rightarrow> (Inl (Fault ''NoneType object has no attribute execute''), w1)
           | Some agent \<Rightarrow>
               (case execute env Search agent (search_prompt (query request)) (Some True) of
                  (res, agent') \<Rightarrow>
                    (let w2 = set_agent Search agent' w1 in
                     case res of
                       Inl e \<Rightarrow> (Inl e, w2)
                     | Inr result \<Rightarrow>
                         (if o_success result then
                            (case validate_int env
                                    (dict_get (o_metadata result) ''tools_used'' (PInt 0)) of
                               Inl e \<Rightarrow> (Inl e, w2)
                             | Inr n \<Rightarrow>
                                 (Inr \<lparr>sr_success = True, sr_query = query request,
                                       sr_summary = o_content result,
                                       sr_search_results = Some (o_metadata result),
                                       sr_sources_count = n, sr_error = None\<rparr>, w2))
                          else
                            (Inr \<lparr>sr_success = False, sr_query = query request,
                                  sr_summary = [], sr_search_results = None,
                                  sr_sources_count = 0, sr_error = o_error result\<rparr>, w2))))))"

text \<open>\<^verbatim>\<open>POST /search\<close>\<close>

definition search_and_summarize ::
  "(exn \<Rightarrow> string) \<Rightarrow> 'a agents_env \<Rightarrow> search_request \<Rightarrow> 'a registry \<Rightarrow>
   search_response \<times> 'a registry" where
  "search_and_summarize str env request w =
     (case search_try env request w of
        (Inl e, w') \<Rightarrow>
          (\<lparr>sr_success = False, sr_query = query request, sr_summary = [],
            sr_search_results = None, sr_sources_count = 0, sr_error = Some (str e)\<rparr>, w')
      | (Inr r, w') \<Rightarrow> (r, w'))"

text \<open>The two bodies \<^verbatim>\<open>get_agent_capabilities\<close> can return.\<close>

datatype capabilities_response =
  CapabilitiesOk "string list" "string list"
| CapabilitiesError string

text \<open>
  One entry of the dictionary literal: \<^verbatim>\<open>SearchAgent(agent_config).get_capabilities()\<close> or
  \<^verbatim>\<open>ChatAgent(agent_config).get_capabilities()\<close>. The instance is assigned to no variable.
\<close>

definition capabilities_of ::
  "'a agents_env \<Rightarrow> agent_kind \<Rightarrow> 'a registry \<Rightarrow> (exn + string list) \<times> 'a registry" where
  "capabilities_of env k w =
     (case construct env k of
        Inl e \<Rightarrow> (Inl e, w)
      | Inr a \<Rightarrow> (get_capabilities env k a, w\<lparr>constructions := constructions w @ [k]\<rparr>))"

text \<open>\<^verbatim>\<open>GET /agents/capabilities\<close>\<close>

definition get_agent_capabilities ::
  "(exn \<Rightarrow> string) \<Rightarrow> 'a agents_env \<Rightarrow> 'a registry \<Rightarrow> capabilities_response \<times> 'a registry" where
  "get_agent_capabilities str env w =
     (case capabilities_of env Search w of
        (Inl e, w1) \<Rightarrow> (CapabilitiesError (str e), w1)
      | (Inr sc, w1) \<Rightarrow>
          (case capabilities_of env Chat w1 of
             (Inl e, w2) \<Rightarrow> (CapabilitiesError (str e), w2)
           | (Inr cc, w2) \<Rightarrow> (CapabilitiesOk sc cc, w2)))"


section \<open>Properties to be checked\<close>

text \<open>
  An \<^verbatim>\<open>error\<close> field is empty when it is \<^verbatim>\<open>None\<close> or the empty string. The invariant of a
  response envelope, for the two response models and for the outcome an agent returns:
  a failure has an empty payload and a non-empty error, a success has an empty error.
\<close>

definition error_empty :: "string option \<Rightarrow> bool" where
  "error_empty e = (case e of None \<Rightarrow> True | Some m \<Rightarrow> m = [])"

definition outcome_ok :: "outcome \<Rightarrow> bool" where
  "outcome_ok r =
     ((\<not> o_success r \<longrightarrow> o_content r = [] \<and> \<not> error_empty (o_error r)) \<and>
      (o_success r \<longrightarrow> error_empty (o_error r)))"

definition chat_envelope_ok :: "chat_response \<Rightarrow> bool" where
  "chat_envelope_ok r =
     ((\<not> cr_success r \<longrightarrow> cr_response r = [] \<and> \<not> error_empty (cr_error r)) \<and>
      (cr_success r \<longrightarrow> error_empty (cr_error r)))"

definition search_envelope_ok :: "search_response \<Rightarrow> bool" where
  "search_envelope_ok r =
     ((\<not> sr_success r \<longrightarrow> sr_summary r = [] \<and> \<not> error_empty (sr_error r)) \<and>
      (sr_success r \<longrightarrow> error_empty (sr_error r)))"

text \<open>Two registries whose globals hold the same instances.\<close>

definition same_slots :: "'a registry \<Rightarrow> 'a registry \<Rightarrow> bool" where
  "same_slots w w' = (search_agent w = search_agent w' \<and> chat_agent w = chat_agent w')"



section \<open>Example inputs\<close>

text \<open>A generator that reports unavailability with an explanation of its own.\<close>

definition quota_generator :: "string \<Rightarrow> string \<Rightarrow> string \<Rightarrow> exn + image_result" where
  "quota_generator p ar mp =
     Inr \<lparr>ir_success = Some False, ir_error = Some ''quota exceeded'',
          ir_image_url = None, ir_image_data = None\<rparr>"

definition mountain_request :: wallpaper_request where
  "mountain_request =
     \<lparr>prompt = ''mountain sunset'', aspect_ratio = ''9:16'', megapixels = ''1'', style = None\<rparr>"

definition empty_store :: gen_state where
  "empty_store = \<lparr>wallpapers = [], db_error = None, generator_calls = []\<rparr>"

definition empty_prompt_request :: wallpaper_request where
  "empty_prompt_request =
     \<lparr>prompt = [], aspect_ratio = ''9:16'', megapixels = ''1'', style = None\<rparr>"


definition doc_at :: "string \<Rightarrow> datetime \<Rightarrow> wallpaper" where
  "doc_at i t = \<lparr>w_id = i, w_prompt = ''ocean'', w_aspect_ratio = ''9:16'',
                 w_image_url = ''u'', w_image_data = ''d'', w_created_at = t\<rparr>"

text \<open>Three generations, stored at the times 1, 2 and 3.\<close>

definition three_store :: gen_state where
  "three_store = \<lparr>wallpapers = [doc_at ''a'' 1, doc_at ''b'' 2, doc_at ''c'' 3],
                   db_error = None, generator_calls = []\<rparr>"



text \<open>One possible \<^verbatim>\<open>str\<close>: the class of the exception before its message.\<close>

fun repr_str :: "exn \<Rightarrow> string" where
  "repr_str (HTTPException c d) = ''HTTPException: '' @ d"
| "repr_str (KeyError k) = ''KeyError: '' @ k"
| "repr_str (Fault m) = ''Fault: '' @ m"

text \<open>
  An agent library whose instances count their executions and always return the outcome
  \<open>r\<close>.
\<close>

definition fixed_env :: "outcome \<Rightarrow> nat agents_env" where
  "fixed_env r =
     \<lparr>construct = (\<lambda>k. Inr 0),
      execute = (\<lambda>k a msg use_tools. (Inr r, Suc a)),
      get_capabilities = (\<lambda>k a. Inr (case k of Search \<Rightarrow> [''web_search''] | Chat \<Rightarrow> [''chat''])),
      coerce_int = (\<lambda>v. Inl (Fault ''value is not a valid integer''))\<rparr>"

definition empty_registry :: "nat registry" where
  "empty_registry = \<lparr>search_agent = None, chat_agent = None, constructions = []\<rparr>"

definition partial_outcome :: outcome where
  "partial_outcome = \<lparr>o_success = False, o_content = ''partial'', o_metadata = [], o_error = None\<rparr>"

definition found_outcome :: outcome where
  "found_outcome = \<lparr>o_success = True, o_content = ''Ownership moves values.'',
                     o_metadata = [(''model'', PStr ''m''), (''tools_used'', PInt 2)],
                     o_error = None\<rparr>"

definition plain_outcome :: outcome where
  "plain_outcome = \<lparr>o_success = True, o_content = ''Hello!'', o_metadata = [], o_error = None\<rparr>"

definition timeout_outcome :: outcome where
  "timeout_outcome = \<lparr>o_success = False, o_content = [], o_metadata = [],
                       o_error = Some ''timeout''\<rparr>"

definition hello_request :: chat_request where
  "hello_request = \<lparr>message = ''hello'', agent_type = ''chat'', req_context = None\<rparr>"

definition rust_request :: search_request where
  "rust_request = \<lparr>query = ''rust ownership'', max_results = 3\<rparr>"


text \<open>Another possible \<^verbatim>\<open>str\<close>: the message alone, empty when the message is.\<close>

fun message_str :: "exn \<Rightarrow> string" where
  "message_str (HTTPException c d) = d"
| "message_str (KeyError k) = k"
| "message_str (Fault m) = m"

text \<open>An agent library whose \<^verbatim>\<open>execute\<close> always raises.\<close>

definition crashing_env :: "nat agents_env" where
  "crashing_env =
     \<lparr>construct = (\<lambda>k. Inr 0),
      execute = (\<lambda>k a msg use_tools. (Inl (Fault ''agent crashed''), Suc a)),
      get_capabilities = (\<lambda>k a. Inr (case k of Search \<Rightarrow> [''web_search''] | Chat \<Rightarrow> [''chat''])),
      coerce_int = (\<lambda>v. Inl (Fault ''value is not a valid integer''))\<rparr>"

text \<open>The response expected for the document \<open>doc_at i t\<close>.\<close>

definition response_at :: "string \<Rightarrow> datetime \<Rightarrow> wallpaper_response" where
  "response_at i t =
     \<lparr>resp_success = True, resp_id = i, resp_prompt = ''ocean'', resp_image_url = Some ''u'',
      resp_preview_url = Some ''u'', resp_created_at = t, resp_error = None\<rparr>"

section \<open>Properties of the generation pipeline\<close>

text \<open>
  Claim C10. For every input, \<^verbatim>\<open>generate_ai_image\<close> returns \<^verbatim>\<open>success = False\<close> with the
  fixed not-configured message. Consequently \<^verbatim>\<open>POST /wallpapers/generate\<close> always ends in
  the 503 service-unavailable condition carrying that message, and the collection of
  stored generations is left as it was (whatever the state of the store).
\<close>

theorem generate_wallpaper_always_unavailable:
  "generate_ai_image p ar mp =
     \<lparr>ir_success = Some False, ir_error = Some not_configured,
      ir_image_url = None, ir_image_data = None\<rparr> \<and>
   generate_wallpaper str wid t1 t2 request s =
     (Inl (HTTPException 503 not_configured),
      s\<lparr>generator_calls := generator_calls s @
           [(prompt request, aspect_ratio request, megapixels request)]\<rparr>) \<and>
   is_service_unavailable (fst (generate_wallpaper str wid t1 t2 request s)) \<and>
   wallpapers (snd (generate_wallpaper str wid t1 t2 request s)) = wallpapers s"
  by (simp add: generate_wallpaper_def generate_wallpaper_via_def generate_wallpaper_try_def
      generate_ai_image_def is_service_unavailable_def Let_def)

text \<open>
  Claim C2, at the failing input: looking up the identifier \<^verbatim>\<open>missing\<close> in an empty,
  working store. The 404 raised for the absent document is caught by the handler's own
  \<^verbatim>\<open>except Exception\<close> and leaves as a 500 whose detail is \<^verbatim>\<open>str\<close> of the 404: the
  caller sees the generic internal error, not the not-found condition.
\<close>

theorem get_wallpaper_missing_is_internal_error:
  "get_wallpaper str ''missing'' \<lparr>wallpapers = [], db_error = None, generator_calls = []\<rparr> =
     Inl (HTTPException 500 (str (HTTPException 404 ''Wallpaper not found''))) \<and>
   \<not> is_not_found
       (get_wallpaper str ''missing'' \<lparr>wallpapers = [], db_error = None, generator_calls = []\<rparr>) \<and>
   is_internal_error
       (get_wallpaper str ''missing'' \<lparr>wallpapers = [], db_error = None, generator_calls = []\<rparr>)"
  by (simp add: get_wallpaper_def get_wallpaper_try_def find_one_def is_not_found_def
      is_internal_error_def)

text \<open>
  Claim C4. When the generator awaited by \<^verbatim>\<open>generate_wallpaper\<close> returns
  \<^verbatim>\<open>success = False\<close> with an explanation under \<^verbatim>\<open>error\<close>, the handler raises the 503
  service-unavailable condition, which is not the 500 internal error, its detail is that
  explanation unchanged, and the store holds the documents it held before.
\<close>

theorem generate_wallpaper_unavailable:
  assumes "gen (prompt request) (aspect_ratio request) (megapixels request) = Inr ir"
    and "ir_success ir = Some False"
    and "ir_error ir = Some explanation"
  shows "fst (generate_wallpaper_via str gen wid t1 t2 request s) =
           Inl (HTTPException 503 explanation) \<and>
         is_service_unavailable (fst (generate_wallpaper_via str gen wid t1 t2 request s)) \<and>
         \<not> is_internal_error (fst (generate_wallpaper_via str gen wid t1 t2 request s)) \<and>
         wallpapers (snd (generate_wallpaper_via str gen wid t1 t2 request s)) = wallpapers s \<and>
         db_error (snd (generate_wallpaper_via str gen wid t1 t2 request s)) = db_error s"
  using assms
  by (simp add: generate_wallpaper_via_def generate_wallpaper_try_def Let_def
      is_service_unavailable_def is_internal_error_def)

theorem generate_wallpaper_unavailable_witness:
  "fst (generate_wallpaper_via (\<lambda>e. ''error'') quota_generator ''id-1'' 10 11
          mountain_request empty_store) = Inl (HTTPException 503 ''quota exceeded'') \<and>
   is_service_unavailable (fst (generate_wallpaper_via (\<lambda>e. ''error'') quota_generator ''id-1'' 10 11
          mountain_request empty_store)) \<and>
   \<not> is_internal_error (fst (generate_wallpaper_via (\<lambda>e. ''error'') quota_generator ''id-1'' 10 11
          mountain_request empty_store)) \<and>
   wallpapers (snd (generate_wallpaper_via (\<lambda>e. ''error'') quota_generator ''id-1'' 10 11
          mountain_request empty_store)) = wallpapers empty_store \<and>
   db_error (snd (generate_wallpaper_via (\<lambda>e. ''error'') quota_generator ''id-1'' 10 11
          mountain_request empty_store)) = db_error empty_store"
proof -
  let ?ir = "\<lparr>ir_success = Some False, ir_error = Some ''quota exceeded'',
             ir_image_url = None, ir_image_data = None\<rparr>"
  have g: "quota_generator (prompt mountain_request) (aspect_ratio mountain_request)
             (megapixels mountain_request) = Inr ?ir"
    by (simp add: quota_generator_def)
  have a: "ir_success ?ir = Some False" by simp
  have b: "ir_error ?ir = Some ''quota exceeded''" by simp
  show ?thesis
    by (rule generate_wallpaper_unavailable
          [where gen = quota_generator and request = mountain_request, OF g a b])
qed

text \<open>
  Claim C3, as stated, fails: a request whose prompt is the empty string is not answered
  with a caller error (a 4xx status), and \<^verbatim>\<open>generate_ai_image\<close> is called with the empty
  prompt.
\<close>

theorem empty_prompt_not_caller_error:
  "\<not> is_caller_error
       (fst (generate_wallpaper repr_str ''id-1'' 10 11 empty_prompt_request empty_store)) \<and>
   generator_calls
       (snd (generate_wallpaper repr_str ''id-1'' 10 11 empty_prompt_request empty_store)) =
     [([], ''9:16'', ''1'')]"
  by (simp add: generate_wallpaper_def generate_wallpaper_via_def generate_wallpaper_try_def
      generate_ai_image_def is_caller_error_def Let_def empty_prompt_request_def empty_store_def)

text \<open>
  Claim C3, amended. The pipeline does not validate the prompt: a request whose prompt is
  the empty string is passed to \<^verbatim>\<open>generate_ai_image\<close> like any other, and the answer is the
  503 service-unavailable condition with the generator's message, which is not a caller
  error; the stored documents are untouched.
\<close>

theorem empty_prompt_reaches_generator:
  "generate_wallpaper str wid t1 t2 (request\<lparr>prompt := []\<rparr>) s =
     (Inl (HTTPException 503 not_configured),
      s\<lparr>generator_calls := generator_calls s @
           [([], aspect_ratio request, megapixels request)]\<rparr>) \<and>
   is_service_unavailable (fst (generate_wallpaper str wid t1 t2 (request\<lparr>prompt := []\<rparr>) s)) \<and>
   \<not> is_caller_error (fst (generate_wallpaper str wid t1 t2 (request\<lparr>prompt := []\<rparr>) s))"
  by (simp add: generate_wallpaper_def generate_wallpaper_via_def generate_wallpaper_try_def
      generate_ai_image_def is_caller_error_def is_service_unavailable_def Let_def)





lemma sort_desc_sorted:
  "sorted_wrt (\<lambda>a b. w_created_at b \<le> w_created_at a)
     (sort_key (\<lambda>w. - w_created_at w) ws)"
proof -
  have "sorted (map (\<lambda>w. - w_created_at w) (sort_key (\<lambda>w. - w_created_at w) ws))"
    by (rule sorted_sort_key)
  then show ?thesis
    by (simp add: sorted_wrt_map)
qed

lemma sort_desc_strict:
  assumes "distinct (map w_created_at ws)"
  shows "sorted_wrt (\<lambda>a b. w_created_at b < w_created_at a)
           (sort_key (\<lambda>w. - w_created_at w) ws)"
proof -
  let ?L = "sort_key (\<lambda>w. - w_created_at w) ws"
  from assms have d: "distinct ws" and inj: "inj_on w_created_at (set ws)"
    by (simp_all add: distinct_map)
  have "inj_on (\<lambda>w. - w_created_at w) (set ?L)"
    using inj by (auto simp: inj_on_def)
  moreover have "distinct ?L" using d by simp
  ultimately have "distinct (map (\<lambda>w. - w_created_at w) ?L)"
    by (simp add: distinct_map)
  moreover have "sorted (map (\<lambda>w. - w_created_at w) ?L)"
    by (rule sorted_sort_key)
  ultimately have "sorted_wrt (<) (map (\<lambda>w. - w_created_at w) ?L)"
    by (simp add: strict_sorted_iff)
  then show ?thesis
    by (simp add: sorted_wrt_map)
qed

lemma older_not_listed:
  assumes "sorted_wrt P L" and "x \<in> set L" and "x \<notin> set (take n L)" and "y \<in> set (take n L)"
  shows "P y x"
proof -
  have "L = take n L @ drop n L" by simp
  with assms(2,3) have "x \<in> set (drop n L)"
    by (metis Un_iff set_append)
  moreover from assms(1) have "sorted_wrt P (take n L @ drop n L)" by simp
  ultimately show ?thesis
    using assms(4) unfolding sorted_wrt_append by blast
qed

lemma get_wallpapers_length: "\<exists>rs. get_wallpapers s = Inr rs \<and> length rs \<le> 100"
  by (cases "db_error s") (simp_all add: get_wallpapers_def find_sort_to_list_def)

text \<open>
  Claim C7. The listing never returns more than 100 records. With a working store it
  returns, for a list \<open>ws\<close> of stored documents, the response built from each document of
  \<open>ws\<close> in order (its id, prompt, image URL twice and \<^verbatim>\<open>created_at\<close>, with
  \<^verbatim>\<open>success = True\<close> and no error); \<open>ws\<close> holds 100 documents, or all of them when there are
  fewer, in descending order of \<^verbatim>\<open>created_at\<close>, and no document left out is newer than a
  listed one. When the stored timestamps are distinct, \<open>ws\<close> has no repetition, the order is
  strictly descending, and every document left out is older than every listed one.
\<close>

theorem get_wallpapers_descending:
  "(\<exists>rs. get_wallpapers s = Inr rs \<and> length rs \<le> 100) \<and>
   (db_error s = None \<longrightarrow>
      (\<exists>ws. get_wallpapers s =
              Inr (map (\<lambda>w. \<lparr>resp_success = True, resp_id = w_id w, resp_prompt = w_prompt w,
                              resp_image_url = Some (w_image_url w),
                              resp_preview_url = Some (w_image_url w),
                              resp_created_at = w_created_at w, resp_error = None\<rparr>) ws) \<and>
            length ws = min 100 (length (wallpapers s)) \<and>
            set ws \<subseteq> set (wallpapers s) \<and>
            sorted_wrt (\<lambda>a b. w_created_at b \<le> w_created_at a) ws \<and>
            (\<forall>w \<in> set (wallpapers s). w \<notin> set ws \<longrightarrow>
               (\<forall>v \<in> set ws. w_created_at w \<le> w_created_at v)) \<and>
            (distinct (map w_created_at (wallpapers s)) \<longrightarrow>
               distinct ws \<and>
               sorted_wrt (\<lambda>a b. w_created_at b < w_created_at a) ws \<and>
               (\<forall>w \<in> set (wallpapers s). w \<notin> set ws \<longrightarrow>
                  (\<forall>v \<in> set ws. w_created_at w < w_created_at v)))))"
proof (intro conjI impI)
  show "\<exists>rs. get_wallpapers s = Inr rs \<and> length rs \<le> 100"
    by (rule get_wallpapers_length)
next
  assume up: "db_error s = None"
  let ?L = "sort_key (\<lambda>w. - w_created_at w) (wallpapers s)"
  let ?ws = "take 100 ?L"
  have so: "sorted_wrt (\<lambda>a b. w_created_at b \<le> w_created_at a) ?L"
    by (rule sort_desc_sorted)
  have 1: "get_wallpapers s =
      Inr (map (\<lambda>w. \<lparr>resp_success = True, resp_id = w_id w, resp_prompt = w_prompt w,
                      resp_image_url = Some (w_image_url w),
                      resp_preview_url = Some (w_image_url w),
                      resp_created_at = w_created_at w, resp_error = None\<rparr>) ?ws)"
    using up by (simp add: get_wallpapers_def find_sort_to_list_def response_of_def)
  have 2: "length ?ws = min 100 (length (wallpapers s))"
    by (simp add: min.commute)
  have 3: "set ?ws \<subseteq> set (wallpapers s)"
    using set_take_subset [of 100 ?L] by simp
  have 4: "sorted_wrt (\<lambda>a b. w_created_at b \<le> w_created_at a) ?ws"
    using so by (rule sorted_wrt_take)
  have 5: "\<forall>w \<in> set (wallpapers s). w \<notin> set ?ws \<longrightarrow>
              (\<forall>v \<in> set ?ws. w_created_at w \<le> w_created_at v)"
  proof (intro ballI impI)
    fix w v
    assume "w \<in> set (wallpapers s)" and "w \<notin> set ?ws" and "v \<in> set ?ws"
    then show "w_created_at w \<le> w_created_at v"
      using older_not_listed [OF so, of w 100 v] by simp
  qed
  have 6: "distinct ?ws \<and>
           sorted_wrt (\<lambda>a b. w_created_at b < w_created_at a) ?ws \<and>
           (\<forall>w \<in> set (wallpapers s). w \<notin> set ?ws \<longrightarrow>
              (\<forall>v \<in> set ?ws. w_created_at w < w_created_at v))"
    if d: "distinct (map w_created_at (wallpapers s))"
  proof (intro conjI ballI impI)
    have st: "sorted_wrt (\<lambda>a b. w_created_at b < w_created_at a) ?L"
      by (rule sort_desc_strict [OF d])
    from d have "distinct (wallpapers s)" by (simp add: distinct_map)
    then show "distinct ?ws" by simp
    show "sorted_wrt (\<lambda>a b. w_created_at b < w_created_at a) ?ws"
      using st by (rule sorted_wrt_take)
    fix w v
    assume "w \<in> set (wallpapers s)" and "w \<notin> set ?ws" and "v \<in> set ?ws"
    then show "w_created_at w < w_created_at v"
      using older_not_listed [OF st, of w 100 v] by simp
  qed
  from 1 2 3 4 5 6 show "\<exists>ws. get_wallpapers s =
              Inr (map (\<lambda>w. \<lparr>resp_success = True, resp_id = w_id w, resp_prompt = w_prompt w,
                              resp_image_url = Some (w_image_url w),
                              resp_preview_url = Some (w_image_url w),
                              resp_created_at = w_created_at w, resp_error = None\<rparr>) ws) \<and>
            length ws = min 100 (length (wallpapers s)) \<and>
            set ws \<subseteq> set (wallpapers s) \<and>
            sorted_wrt (\<lambda>a b. w_created_at b \<le> w_created_at a) ws \<and>
            (\<forall>w \<in> set (wallpapers s). w \<notin> set ws \<longrightarrow>
               (\<forall>v \<in> set ws. w_created_at w \<le> w_created_at v)) \<and>
            (distinct (map w_created_at (wallpapers s)) \<longrightarrow>
               distinct ws \<and>
               sorted_wrt (\<lambda>a b. w_created_at b < w_created_at a) ws \<and>
               (\<forall>w \<in> set (wallpapers s). w \<notin> set ws \<longrightarrow>
                  (\<forall>v \<in> set ws. w_created_at w < w_created_at v)))"
    by blast
qed

theorem get_wallpapers_descending_witness:
  "get_wallpapers three_store =
     Inr [response_at ''c'' 3, response_at ''b'' 2, response_at ''a'' 1] \<and>
   (\<exists>ws. get_wallpapers three_store =
              Inr (map (\<lambda>w. \<lparr>resp_success = True, resp_id = w_id w, resp_prompt = w_prompt w,
                              resp_image_url = Some (w_image_url w),
                              resp_preview_url = Some (w_image_url w),
                              resp_created_at = w_created_at w, resp_error = None\<rparr>) ws) \<and>
          ws = [doc_at ''c'' 3, doc_at ''b'' 2, doc_at ''a'' 1])"
proof -
  have up: "db_error three_store = None" by (simp add: three_store_def)
  have d: "distinct (map w_created_at (wallpapers three_store))"
    by (simp add: three_store_def doc_at_def)
  from get_wallpapers_descending [of three_store] up d
  obtain ws where r: "get_wallpapers three_store =
              Inr (map (\<lambda>w. \<lparr>resp_success = True, resp_id = w_id w, resp_prompt = w_prompt w,
                              resp_image_url = Some (w_image_url w),
                              resp_preview_url = Some (w_image_url w),
                              resp_created_at = w_created_at w, resp_error = None\<rparr>) ws)"
    and len: "length ws = min 100 (length (wallpapers three_store))"
    and sub: "set ws \<subseteq> set (wallpapers three_store)"
    and dis: "distinct ws"
    and st: "sorted_wrt (\<lambda>a b. w_created_at b < w_created_at a) ws"
    by blast
  from len have l3: "length ws = 3" by (simp add: three_store_def)
  then obtain x y z where ws: "ws = [x, y, z]"
    by (cases ws; cases "tl ws"; cases "tl (tl ws)") auto
  from sub have mem: "set ws \<subseteq> {doc_at ''a'' 1, doc_at ''b'' 2, doc_at ''c'' 3}"
    by (simp add: three_store_def)
  from st ws have ord: "w_created_at y < w_created_at x" "w_created_at z < w_created_at y"
    by simp_all
  from mem ws ord have "ws = [doc_at ''c'' 3, doc_at ''b'' 2, doc_at ''a'' 1]"
    by (auto simp: doc_at_def)
  with r show ?thesis
    by (simp add: response_at_def doc_at_def)
qed

section \<open>Properties of the agent routes\<close>

text \<open>
  Claim C6. When the search agent is available and its \<^verbatim>\<open>execute\<close> returns an outcome: on
  reported success the response carries the outcome's content as summary, its metadata as
  \<^verbatim>\<open>search_results\<close>, and as \<^verbatim>\<open>sources_count\<close> the integer under \<^verbatim>\<open>tools_used\<close>, or 0 when
  that key is absent; on reported failure the summary is empty, \<^verbatim>\<open>sources_count\<close> is 0 and
  the error is the outcome's error.
\<close>

theorem search_maps_outcome:
  assumes "search_init env w = Inr w1"
    and "search_agent w1 = Some a"
    and "execute env Search a (search_prompt (query request)) (Some True) = (Inr result, a')"
  shows "(o_success result \<and> map_of (o_metadata result) ''tools_used'' = Some (PInt n) \<longrightarrow>
            fst (search_and_summarize str env request w) =
              \<lparr>sr_success = True, sr_query = query request, sr_summary = o_content result,
               sr_search_results = Some (o_metadata result), sr_sources_count = n,
               sr_error = None\<rparr>) \<and>
         (o_success result \<and> map_of (o_metadata result) ''tools_used'' = None \<longrightarrow>
            fst (search_and_summarize str env request w) =
              \<lparr>sr_success = True, sr_query = query request, sr_summary = o_content result,
               sr_search_results = Some (o_metadata result), sr_sources_count = 0,
               sr_error = None\<rparr>) \<and>
         (\<not> o_success result \<longrightarrow>
            fst (search_and_summarize str env request w) =
              \<lparr>sr_success = False, sr_query = query request, sr_summary = [],
               sr_search_results = None, sr_sources_count = 0,
               sr_error = o_error result\<rparr>)"
  using assms
  by (simp add: search_and_summarize_def search_try_def Let_def dict_get_def validate_int_def)

lemma fixed_env_search_init:
  "search_init (fixed_env r) empty_registry =
     Inr \<lparr>search_agent = Some 0, chat_agent = None, constructions = [Search]\<rparr>"
  by (simp add: search_init_def create_agent_def set_agent_def fixed_env_def empty_registry_def)

lemma fixed_env_execute: "execute (fixed_env r) k a msg t = (Inr r, Suc a)"
  by (simp add: fixed_env_def)

theorem search_maps_outcome_witness:
  "fst (search_and_summarize repr_str (fixed_env found_outcome) rust_request empty_registry) =
     \<lparr>sr_success = True, sr_query = ''rust ownership'',
      sr_summary = ''Ownership moves values.'',
      sr_search_results = Some [(''model'', PStr ''m''), (''tools_used'', PInt 2)],
      sr_sources_count = 2, sr_error = None\<rparr> \<and>
   fst (search_and_summarize repr_str (fixed_env plain_outcome) rust_request empty_registry) =
     \<lparr>sr_success = True, sr_query = ''rust ownership'', sr_summary = ''Hello!'',
      sr_search_results = Some [], sr_sources_count = 0, sr_error = None\<rparr> \<and>
   fst (search_and_summarize repr_str (fixed_env timeout_outcome) rust_request empty_registry) =
     \<lparr>sr_success = False, sr_query = ''rust ownership'', sr_summary = [],
      sr_search_results = None, sr_sources_count = 0, sr_error = Some ''timeout''\<rparr>"
proof -
  let ?w1 = "\<lparr>search_agent = Some (0::nat), chat_agent = None, constructions = [Search]\<rparr>"
  have s: "search_agent ?w1 = Some 0" by simp
  have h1: "o_success found_outcome \<and>
            map_of (o_metadata found_outcome) ''tools_used'' = Some (PInt 2)"
    by (simp add: found_outcome_def)
  have h2: "o_success plain_outcome \<and> map_of (o_metadata plain_outcome) ''tools_used'' = None"
    by (simp add: plain_outcome_def)
  have h3: "\<not> o_success timeout_outcome"
    by (simp add: timeout_outcome_def)
  from search_maps_outcome [OF fixed_env_search_init s fixed_env_execute,
      where result = found_outcome and n = 2 and request = rust_request and str = repr_str] h1
  have 1: "fst (search_and_summarize repr_str (fixed_env found_outcome) rust_request
             empty_registry) =
           \<lparr>sr_success = True, sr_query = query rust_request,
            sr_summary = o_content found_outcome,
            sr_search_results = Some (o_metadata found_outcome), sr_sources_count = 2,
            sr_error = None\<rparr>"
    by blast
  from search_maps_outcome [OF fixed_env_search_init s fixed_env_execute,
      where result = plain_outcome and request = rust_request and str = repr_str] h2
  have 2: "fst (search_and_summarize repr_str (fixed_env plain_outcome) rust_request
             empty_registry) =
           \<lparr>sr_success = True, sr_query = query rust_request,
            sr_summary = o_content plain_outcome,
            sr_search_results = Some (o_metadata plain_outcome), sr_sources_count = 0,
            sr_error = None\<rparr>"
    by blast
  from search_maps_outcome [OF fixed_env_search_init s fixed_env_execute,
      where result = timeout_outcome and request = rust_request and str = repr_str] h3
  have 3: "fst (search_and_summarize repr_str (fixed_env timeout_outcome) rust_request
             empty_registry) =
           \<lparr>sr_success = False, sr_query = query rust_request, sr_summary = [],
            sr_search_results = None, sr_sources_count = 0,
            sr_error = o_error timeout_outcome\<rparr>"
    by blast
  from 1 2 3 show ?thesis
    by (simp add: found_outcome_def plain_outcome_def timeout_outcome_def rust_request_def)
qed

text \<open>
  Claim C1, as stated, fails: an agent that reports failure with content and without an
  error message yields a chat envelope with \<^verbatim>\<open>success = False\<close>, a non-empty payload and
  no error, and a search envelope with \<^verbatim>\<open>success = False\<close> and no error.
\<close>

theorem envelope_invariant_fails:
  "\<not> chat_envelope_ok
       (fst (chat_with_agent repr_str (fixed_env partial_outcome) hello_request empty_registry)) \<and>
   \<not> search_envelope_ok
       (fst (search_and_summarize repr_str (fixed_env partial_outcome) rust_request
               empty_registry))"
  by (simp add: chat_envelope_ok_def search_envelope_ok_def chat_with_agent_def chat_try_def
      chat_init_def chat_select_def create_agent_def set_agent_def fixed_env_def
      partial_outcome_def hello_request_def empty_registry_def error_empty_def
      search_and_summarize_def search_try_def search_init_def rust_request_def)

lemma search_cases:
  obtains (fault) e w' where "search_try env req w = (Inl e, w')"
  | (success) a out a' n w' where
      "execute env Search a (search_prompt (query req)) (Some True) = (Inr out, a')"
      and "o_success out"
      and "search_try env req w =
         (Inr \<lparr>sr_success = True, sr_query = query req, sr_summary = o_content out,
           sr_search_results = Some (o_metadata out), sr_sources_count = n,
           sr_error = None\<rparr>, w')"
  | (failure) a out a' w' where
      "execute env Search a (search_prompt (query req)) (Some True) = (Inr out, a')"
      and "\<not> o_success out"
      and "search_try env req w =
         (Inr \<lparr>sr_success = False, sr_query = query req, sr_summary = [],
           sr_search_results = None, sr_sources_count = 0, sr_error = o_error out\<rparr>, w')"
proof (cases "search_init env w")
  case (Inl e)
  then show ?thesis
    using fault [of e w] by (simp add: search_try_def)
next
  case (Inr w1)
  show ?thesis
  proof (cases "search_agent w1")
    case None
    then show ?thesis
      using Inr fault [of "Fault ''NoneType object has no attribute execute''" w1]
      by (simp add: search_try_def)
  next
    case (Some a)
    obtain res a' where ex:
      "execute env Search a (search_prompt (query req)) (Some True) = (res, a')"
      by (cases "execute env Search a (search_prompt (query req)) (Some True)")
    show ?thesis
    proof (cases res)
      case (Inl e)
      then show ?thesis
        using Inr Some ex fault [of e "set_agent Search a' w1"]
        by (simp add: search_try_def)
    next
      case out: (Inr out)
      show ?thesis
      proof (cases "o_success out")
        case False
        then show ?thesis
          using Inr Some ex out failure [of a out a' "set_agent Search a' w1"]
          by (simp add: search_try_def)
      next
        case True
        show ?thesis
        proof (cases "validate_int env (dict_get (o_metadata out) ''tools_used'' (PInt 0))")
          case (Inl e)
          then show ?thesis
            using Inr Some ex out True fault [of e "set_agent Search a' w1"]
            by (simp add: search_try_def)
        next
          case n: (Inr n)
          then show ?thesis
            using Inr Some ex out True success [of a out a' n "set_agent Search a' w1"]
            by (simp add: search_try_def)
        qed
      qed
    qed
  qed
qed

lemma chat_cases:
  obtains (fault) e w' where "chat_try env req w = (Inl e, w')"
  | (reported) k a out a' caps w' where
      "execute env k a (message req) None = (Inr out, a')"
      and "chat_try env req w =
         (Inr \<lparr>cr_success = o_success out, cr_response = o_content out,
           cr_agent_type = agent_type req, cr_capabilities = caps,
           cr_metadata = o_metadata out, cr_error = o_error out\<rparr>, w')"
proof (cases "chat_init env (agent_type req) w")
  case (Inl e)
  then show ?thesis
    using fault [of e w] by (simp add: chat_try_def)
next
  case (Inr w1)
  show ?thesis
  proof (cases "chat_select (agent_type req) w1")
    case None
    then show ?thesis
      using Inr fault [of "HTTPException 500 ''Failed to initialize agent''" w1]
      by (simp add: chat_try_def)
  next
    case (Some ka)
    obtain k a where ka: "ka = (k, a)" by (cases ka)
    obtain res a' where ex: "execute env k a (message req) None = (res, a')"
      by (cases "execute env k a (message req) None")
    show ?thesis
    proof (cases res)
      case (Inl e)
      then show ?thesis
        using Inr Some ka ex fault [of e "set_agent k a' w1"]
        by (simp add: chat_try_def)
    next
      case out: (Inr out)
      show ?thesis
      proof (cases "get_capabilities env k a'")
        case (Inl e)
        then show ?thesis
          using Inr Some ka ex out fault [of e "set_agent k a' w1"]
          by (simp add: chat_try_def)
      next
        case caps: (Inr caps)
        then show ?thesis
          using Inr Some ka ex out reported [of k a out a' caps "set_agent k a' w1"]
          by (simp add: chat_try_def)
      qed
    qed
  qed
qed

lemma chat_ok_if:
  assumes ne: "\<forall>e. fst (chat_try env creq w) = Inl e \<longrightarrow> str e \<noteq> []"
    and ok: "\<forall>k a out a'. execute env k a (message creq) None = (Inr out, a') \<longrightarrow> outcome_ok out"
  shows "chat_envelope_ok (fst (chat_with_agent str env creq w))"
proof (cases rule: chat_cases [of env creq w])
  case (fault e w')
  with ne have "str e \<noteq> []" by simp
  then show ?thesis
    using fault by (simp add: chat_with_agent_def chat_envelope_ok_def error_empty_def)
next
  case (reported k a out a' caps w')
  with ok have "outcome_ok out" by blast
  then show ?thesis
    using reported(2) by (simp add: chat_with_agent_def chat_envelope_ok_def outcome_ok_def)
qed

lemma search_ok_if:
  assumes ne: "\<forall>e. fst (search_try env sreq w) = Inl e \<longrightarrow> str e \<noteq> []"
    and ok: "\<forall>a out a'. execute env Search a (search_prompt (query sreq)) (Some True) =
                (Inr out, a') \<longrightarrow> outcome_ok out"
  shows "search_envelope_ok (fst (search_and_summarize str env sreq w))"
proof (cases rule: search_cases [of env sreq w])
  case (fault e w')
  with ne have "str e \<noteq> []" by simp
  then show ?thesis
    using fault by (simp add: search_and_summarize_def search_envelope_ok_def error_empty_def)
next
  case (success a out a' n w')
  then show ?thesis
    by (simp add: search_and_summarize_def search_envelope_ok_def error_empty_def)
next
  case (failure a out a' w')
  with ok have "outcome_ok out" by blast
  then show ?thesis
    using failure(2,3)
    by (simp add: search_and_summarize_def search_envelope_ok_def outcome_ok_def)
qed

text \<open>
  Claim C1, amended. A search envelope with \<^verbatim>\<open>success = True\<close> has no error, and one with
  \<^verbatim>\<open>success = False\<close> has an empty summary. When the \<^verbatim>\<open>try\<close> body of a dispatcher raises
  \<open>e\<close> (in the initialisation, the selection, \<^verbatim>\<open>execute\<close> or \<^verbatim>\<open>get_capabilities\<close>), the
  envelope is the failure envelope with empty payload, no capabilities and error
  \<^verbatim>\<open>str(e)\<close>. When the chat agent returns an outcome, the chat envelope carries the
  outcome's success, content, metadata and error unchanged, with the agent's capabilities;
  when the search agent reports failure, the search envelope carries the outcome's error.
  Hence a chat envelope, and a search envelope, satisfies the invariant if \<^verbatim>\<open>str\<close> of the
  exception its \<^verbatim>\<open>try\<close> body raises (if any) is not empty and every outcome \<^verbatim>\<open>execute\<close> can
  return for the request satisfies the invariant itself.
\<close>

theorem envelope_invariant_conditional:
  fixes str :: "exn \<Rightarrow> string" and env :: "'a agents_env"
  defines "cfault \<equiv> \<lambda>creq e.
      \<lparr>cr_success = False, cr_response = [], cr_agent_type = agent_type creq,
       cr_capabilities = [], cr_metadata = [], cr_error = Some (str e)\<rparr>"
    and "sfault \<equiv> \<lambda>sreq e.
      \<lparr>sr_success = False, sr_query = query sreq, sr_summary = [],
       sr_search_results = None, sr_sources_count = 0, sr_error = Some (str e)\<rparr>"
  shows
  "(sr_success (fst (search_and_summarize str env sreq w)) \<longrightarrow>
      sr_error (fst (search_and_summarize str env sreq w)) = None) \<and>
   (\<not> sr_success (fst (search_and_summarize str env sreq w)) \<longrightarrow>
      sr_summary (fst (search_and_summarize str env sreq w)) = []) \<and>
   (fst (chat_try env creq w) = Inl e \<longrightarrow>
      fst (chat_with_agent str env creq w) = cfault creq e) \<and>
   (chat_init env (agent_type creq) w = Inl e \<longrightarrow>
      fst (chat_with_agent str env creq w) = cfault creq e) \<and>
   (chat_init env (agent_type creq) w = Inr w1 \<and> chat_select (agent_type creq) w1 = None \<longrightarrow>
      fst (chat_with_agent str env creq w) =
        cfault creq (HTTPException 500 ''Failed to initialize agent'')) \<and>
   (chat_init env (agent_type creq) w = Inr w1 \<and>
    chat_select (agent_type creq) w1 = Some (k, a) \<and>
    execute env k a (message creq) None = (Inl e, a') \<longrightarrow>
      fst (chat_with_agent str env creq w) = cfault creq e) \<and>
   (chat_init env (agent_type creq) w = Inr w1 \<and>
    chat_select (agent_type creq) w1 = Some (k, a) \<and>
    execute env k a (message creq) None = (Inr out, a') \<and>
    get_capabilities env k a' = Inl e \<longrightarrow>
      fst (chat_with_agent str env creq w) = cfault creq e) \<and>
   (chat_init env (agent_type creq) w = Inr w1 \<and>
    chat_select (agent_type creq) w1 = Some (k, a) \<and>
    execute env k a (message creq) None = (Inr out, a') \<and>
    get_capabilities env k a' = Inr caps \<longrightarrow>
      fst (chat_with_agent str env creq w) =
        \<lparr>cr_success = o_success out, cr_response = o_content out,
         cr_agent_type = agent_type creq, cr_capabilities = caps,
         cr_metadata = o_metadata out, cr_error = o_error out\<rparr>) \<and>
   (fst (search_try env sreq w) = Inl e \<longrightarrow>
      fst (search_and_summarize str env sreq w) = sfault sreq e) \<and>
   (search_init env w = Inl e \<longrightarrow>
      fst (search_and_summarize str env sreq w) = sfault sreq e) \<and>
   (search_init env w = Inr w1 \<and> search_agent w1 = Some a \<and>
    execute env Search a (search_prompt (query sreq)) (Some True) = (Inl e, a') \<longrightarrow>
      fst (search_and_summarize str env sreq w) = sfault sreq e) \<and>
   (search_init env w = Inr w1 \<and> search_agent w1 = Some a \<and>
    execute env Search a (search_prompt (query sreq)) (Some True) = (Inr out, a') \<and>
    \<not> o_success out \<longrightarrow>
      fst (search_and_summarize str env sreq w) =
        \<lparr>sr_success = False, sr_query = query sreq, sr_summary = [],
         sr_search_results = None, sr_sources_count = 0, sr_error = o_error out\<rparr>) \<and>
   ((\<forall>x. fst (chat_try env creq w) = Inl x \<longrightarrow> str x \<noteq> []) \<and>
    (\<forall>k a out a'. execute env k a (message creq) None = (Inr out, a') \<longrightarrow> outcome_ok out) \<longrightarrow>
      chat_envelope_ok (fst (chat_with_agent str env creq w))) \<and>
   ((\<forall>x. fst (search_try env sreq w) = Inl x \<longrightarrow> str x \<noteq> []) \<and>
    (\<forall>a out a'. execute env Search a (search_prompt (query sreq)) (Some True) =
        (Inr out, a') \<longrightarrow> outcome_ok out) \<longrightarrow>
      search_envelope_ok (fst (search_and_summarize str env sreq w)))"
proof (intro conjI impI)
  show "sr_error (fst (search_and_summarize str env sreq w)) = None"
    if "sr_success (fst (search_and_summarize str env sreq w))"
    using that
    by (cases rule: search_cases [of env sreq w]) (simp_all add: search_and_summarize_def)
  show "sr_summary (fst (search_and_summarize str env sreq w)) = []"
    if "\<not> sr_success (fst (search_and_summarize str env sreq w))"
    using that
    by (cases rule: search_cases [of env sreq w]) (simp_all add: search_and_summarize_def)
  show "fst (chat_with_agent str env creq w) = cfault creq e"
    if "fst (chat_try env creq w) = Inl e"
    using that
    by (cases "chat_try env creq w") (simp add: chat_with_agent_def cfault_def)
  show "fst (chat_with_agent str env creq w) = cfault creq e"
    if "chat_init env (agent_type creq) w = Inl e"
    using that by (simp add: chat_with_agent_def chat_try_def cfault_def)
  show "fst (chat_with_agent str env creq w) =
        cfault creq (HTTPException 500 ''Failed to initialize agent'')"
    if "chat_init env (agent_type creq) w = Inr w1 \<and> chat_select (agent_type creq) w1 = None"
    using that by (simp add: chat_with_agent_def chat_try_def cfault_def)
  show "fst (chat_with_agent str env creq w) = cfault creq e"
    if "chat_init env (agent_type creq) w = Inr w1 \<and>
        chat_select (agent_type creq) w1 = Some (k, a) \<and>
        execute env k a (message creq) None = (Inl e, a')"
    using that by (simp add: chat_with_agent_def chat_try_def cfault_def)
  show "fst (chat_with_agent str env creq w) = cfault creq e"
    if "chat_init env (agent_type creq) w = Inr w1 \<and>
        chat_select (agent_type creq) w1 = Some (k, a) \<and>
        execute env k a (message creq) None = (Inr out, a') \<and>
        get_capabilities env k a' = Inl e"
    using that by (simp add: chat_with_agent_def chat_try_def cfault_def)
  show "fst (chat_with_agent str env creq w) =
        \<lparr>cr_success = o_success out, cr_response = o_content out,
         cr_agent_type = agent_type creq, cr_capabilities = caps,
         cr_metadata = o_metadata out, cr_error = o_error out\<rparr>"
    if "chat_init env (agent_type creq) w = Inr w1 \<and>
        chat_select (agent_type creq) w1 = Some (k, a) \<and>
        execute env k a (message creq) None = (Inr out, a') \<and>
        get_capabilities env k a' = Inr caps"
    using that by (simp add: chat_with_agent_def chat_try_def)
  show "fst (search_and_summarize str env sreq w) = sfault sreq e"
    if "fst (search_try env sreq w) = Inl e"
    using that
    by (cases "search_try env sreq w") (simp add: search_and_summarize_def sfault_def)
  show "fst (search_and_summarize str env sreq w) = sfault sreq e"
    if "search_init env w = Inl e"
    using that by (simp add: search_and_summarize_def search_try_def sfault_def)
  show "fst (search_and_summarize str env sreq w) = sfault sreq e"
    if "search_init env w = Inr w1 \<and> search_agent w1 = Some a \<and>
        execute env Search a (search_prompt (query sreq)) (Some True) = (Inl e, a')"
    using that by (simp add: search_and_summarize_def search_try_def sfault_def)
  show "fst (search_and_summarize str env sreq w) =
        \<lparr>sr_success = False, sr_query = query sreq, sr_summary = [],
         sr_search_results = None, sr_sources_count = 0, sr_error = o_error out\<rparr>"
    if "search_init env w = Inr w1 \<and> search_agent w1 = Some a \<and>
        execute env Search a (search_prompt (query sreq)) (Some True) = (Inr out, a') \<and>
        \<not> o_success out"
    using that by (simp add: search_and_summarize_def search_try_def)
  show "chat_envelope_ok (fst (chat_with_agent str env creq w))"
    if "(\<forall>x. fst (chat_try env creq w) = Inl x \<longrightarrow> str x \<noteq> []) \<and>
        (\<forall>k a out a'. execute env k a (message creq) None = (Inr out, a') \<longrightarrow> outcome_ok out)"
    using that chat_ok_if [of env creq w str] by blast
  show "search_envelope_ok (fst (search_and_summarize str env sreq w))"
    if "(\<forall>x. fst (search_try env sreq w) = Inl x \<longrightarrow> str x \<noteq> []) \<and>
        (\<forall>a out a'. execute env Search a (search_prompt (query sreq)) (Some True) =
            (Inr out, a') \<longrightarrow> outcome_ok out)"
    using that search_ok_if [of env sreq w str] by blast
qed

lemma crashing_chat_try:
  "fst (chat_try crashing_env hello_request empty_registry) = Inl (Fault ''agent crashed'')"
  by (simp add: chat_try_def chat_init_def chat_select_def create_agent_def set_agent_def
      crashing_env_def hello_request_def empty_registry_def)

lemma crashing_search_try:
  "fst (search_try crashing_env rust_request empty_registry) = Inl (Fault ''agent crashed'')"
  by (simp add: search_try_def search_init_def create_agent_def set_agent_def
      crashing_env_def rust_request_def empty_registry_def)

lemma fixed_chat_steps:
  "chat_init (fixed_env r) (agent_type hello_request) empty_registry =
     Inr \<lparr>search_agent = None, chat_agent = Some 0, constructions = [Chat]\<rparr> \<and>
   chat_select (agent_type hello_request)
     \<lparr>search_agent = None, chat_agent = Some (0::nat), constructions = [Chat]\<rparr> =
     Some (Chat, 0) \<and>
   execute (fixed_env r) Chat 0 (message hello_request) None = (Inr r, Suc 0) \<and>
   get_capabilities (fixed_env r) Chat (Suc 0) = Inr [''chat'']"
  by (simp add: chat_init_def chat_select_def create_agent_def set_agent_def
      fixed_env_def hello_request_def empty_registry_def)

lemma fixed_chat_try_no_fault:
  "\<forall>x. fst (chat_try (fixed_env r) hello_request empty_registry) = Inl x \<longrightarrow>
         message_str x \<noteq> []"
  by (simp add: chat_try_def chat_init_def chat_select_def create_agent_def set_agent_def
      fixed_env_def hello_request_def empty_registry_def)

lemma fixed_search_try_no_fault:
  "\<not> o_success r \<Longrightarrow>
   \<forall>x. fst (search_try (fixed_env r) rust_request empty_registry) = Inl x \<longrightarrow>
         message_str x \<noteq> []"
  by (simp add: search_try_def search_init_def create_agent_def set_agent_def
      fixed_env_def rust_request_def empty_registry_def)

theorem envelope_invariant_conditional_witness:
  "fst (chat_with_agent message_str crashing_env hello_request empty_registry) =
     \<lparr>cr_success = False, cr_response = [], cr_agent_type = ''chat'', cr_capabilities = [],
      cr_metadata = [], cr_error = Some ''agent crashed''\<rparr> \<and>
   chat_envelope_ok (fst (chat_with_agent message_str crashing_env hello_request
     empty_registry)) \<and>
   fst (search_and_summarize message_str crashing_env rust_request empty_registry) =
     \<lparr>sr_success = False, sr_query = ''rust ownership'', sr_summary = [],
      sr_search_results = None, sr_sources_count = 0, sr_error = Some ''agent crashed''\<rparr> \<and>
   search_envelope_ok (fst (search_and_summarize message_str crashing_env rust_request
     empty_registry)) \<and>
   fst (chat_with_agent message_str (fixed_env plain_outcome) hello_request empty_registry) =
     \<lparr>cr_success = True, cr_response = ''Hello!'', cr_agent_type = ''chat'',
      cr_capabilities = [''chat''], cr_metadata = [], cr_error = None\<rparr> \<and>
   chat_envelope_ok (fst (chat_with_agent message_str (fixed_env plain_outcome) hello_request
     empty_registry)) \<and>
   fst (chat_with_agent message_str (fixed_env timeout_outcome) hello_request empty_registry) =
     \<lparr>cr_success = False, cr_response = [], cr_agent_type = ''chat'',
      cr_capabilities = [''chat''], cr_metadata = [], cr_error = Some ''timeout''\<rparr> \<and>
   chat_envelope_ok (fst (chat_with_agent message_str (fixed_env timeout_outcome)
     hello_request empty_registry)) \<and>
   search_envelope_ok (fst (search_and_summarize message_str (fixed_env timeout_outcome)
     rust_request empty_registry))"
proof -
  note crash = envelope_invariant_conditional
    [where env = crashing_env and str = message_str and creq = hello_request
       and sreq = rust_request and w = empty_registry and e = "Fault ''agent crashed''"]
  note crash_chat_fault = crash 
    [THEN conjunct2, THEN conjunct2, THEN conjunct1]
  note crash_chat_ok = crash 
    [THEN conjunct2, THEN conjunct2, THEN conjunct2, THEN conjunct2, THEN conjunct2, THEN conjunct2, THEN conjunct2, THEN conjunct2, THEN conjunct2, THEN conjunct2, THEN conjunct2, THEN conjunct2, THEN conjunct1]
  note crash_search_fault = crash 
    [THEN conjunct2, THEN conjunct2, THEN conjunct2, THEN conjunct2, THEN conjunct2, THEN conjunct2, THEN conjunct2, THEN conjunct2, THEN conjunct1]
  note crash_search_ok = crash 
    [THEN conjunct2, THEN conjunct2, THEN conjunct2, THEN conjunct2, THEN conjunct2, THEN conjunct2, THEN conjunct2, THEN conjunct2, THEN conjunct2, THEN conjunct2, THEN conjunct2, THEN conjunct2, THEN conjunct2]
  have c1: "fst (chat_with_agent message_str crashing_env hello_request empty_registry) =
     \<lparr>cr_success = False, cr_response = [], cr_agent_type = agent_type hello_request,
      cr_capabilities = [], cr_metadata = [],
      cr_error = Some (message_str (Fault ''agent crashed''))\<rparr>"
    by (rule mp [OF crash_chat_fault crashing_chat_try])
  have c2: "chat_envelope_ok (fst (chat_with_agent message_str crashing_env hello_request
     empty_registry))"
  proof (rule mp [OF crash_chat_ok], rule conjI)
    show "\<forall>x. fst (chat_try crashing_env hello_request empty_registry) = Inl x \<longrightarrow>
            message_str x \<noteq> []"
      by (simp add: crashing_chat_try)
    show "\<forall>k a out a'. execute crashing_env k a (message hello_request) None =
            (Inr out, a') \<longrightarrow> outcome_ok out"
      by (simp add: crashing_env_def)
  qed
  have c3: "fst (search_and_summarize message_str crashing_env rust_request empty_registry) =
     \<lparr>sr_success = False, sr_query = query rust_request, sr_summary = [],
      sr_search_results = None, sr_sources_count = 0,
      sr_error = Some (message_str (Fault ''agent crashed''))\<rparr>"
    by (rule mp [OF crash_search_fault crashing_search_try])
  have c4: "search_envelope_ok (fst (search_and_summarize message_str crashing_env
     rust_request empty_registry))"
  proof (rule mp [OF crash_search_ok], rule conjI)
    show "\<forall>x. fst (search_try crashing_env rust_request empty_registry) = Inl x \<longrightarrow>
            message_str x \<noteq> []"
      by (simp add: crashing_search_try)
    show "\<forall>a out a'. execute crashing_env Search a
            (search_prompt (query rust_request)) (Some True) = (Inr out, a') \<longrightarrow> outcome_ok out"
      by (simp add: crashing_env_def)
  qed
  note plain = envelope_invariant_conditional
    [where env = "fixed_env plain_outcome" and str = message_str and creq = hello_request
       and sreq = rust_request and w = empty_registry and k = Chat and a = 0
       and a' = "Suc 0" and out = plain_outcome and caps = "[''chat'']"
       and ?w1.0 = "\<lparr>search_agent = None, chat_agent = Some 0, constructions = [Chat]\<rparr>"]
  note plain_copy = plain 
    [THEN conjunct2, THEN conjunct2, THEN conjunct2, THEN conjunct2, THEN conjunct2, THEN conjunct2, THEN conjunct2, THEN conjunct1]
  note plain_ok = plain 
    [THEN conjunct2, THEN conjunct2, THEN conjunct2, THEN conjunct2, THEN conjunct2, THEN conjunct2, THEN conjunct2, THEN conjunct2, THEN conjunct2, THEN conjunct2, THEN conjunct2, THEN conjunct2, THEN conjunct1]
  have p1: "fst (chat_with_agent message_str (fixed_env plain_outcome) hello_request
       empty_registry) =
     \<lparr>cr_success = o_success plain_outcome, cr_response = o_content plain_outcome,
      cr_agent_type = agent_type hello_request, cr_capabilities = [''chat''],
      cr_metadata = o_metadata plain_outcome, cr_error = o_error plain_outcome\<rparr>"
    by (rule mp [OF plain_copy fixed_chat_steps])
  have p2: "chat_envelope_ok (fst (chat_with_agent message_str (fixed_env plain_outcome)
       hello_request empty_registry))"
  proof (rule mp [OF plain_ok], rule conjI)
    show "\<forall>x. fst (chat_try (fixed_env plain_outcome) hello_request empty_registry) = Inl x
            \<longrightarrow> message_str x \<noteq> []"
      by (rule fixed_chat_try_no_fault)
    show "\<forall>k a out a'. execute (fixed_env plain_outcome) k a (message hello_request)
            None = (Inr out, a') \<longrightarrow> outcome_ok out"
      by (simp add: fixed_env_def outcome_ok_def plain_outcome_def error_empty_def)
  qed
  note tout = envelope_invariant_conditional
    [where env = "fixed_env timeout_outcome" and str = message_str and creq = hello_request
       and sreq = rust_request and w = empty_registry and k = Chat and a = 0
       and a' = "Suc 0" and out = timeout_outcome and caps = "[''chat'']"
       and ?w1.0 = "\<lparr>search_agent = None, chat_agent = Some 0, constructions = [Chat]\<rparr>"]
  note tout_copy = tout 
    [THEN conjunct2, THEN conjunct2, THEN conjunct2, THEN conjunct2, THEN conjunct2, THEN conjunct2, THEN conjunct2, THEN conjunct1]
  note tout_chat_ok = tout 
    [THEN conjunct2, THEN conjunct2, THEN conjunct2, THEN conjunct2, THEN conjunct2, THEN conjunct2, THEN conjunct2, THEN conjunct2, THEN conjunct2, THEN conjunct2, THEN conjunct2, THEN conjunct2, THEN conjunct1]
  note tout_search_ok = tout 
    [THEN conjunct2, THEN conjunct2, THEN conjunct2, THEN conjunct2, THEN conjunct2, THEN conjunct2, THEN conjunct2, THEN conjunct2, THEN conjunct2, THEN conjunct2, THEN conjunct2, THEN conjunct2, THEN conjunct2]
  have t1: "fst (chat_with_agent message_str (fixed_env timeout_outcome) hello_request
       empty_registry) =
     \<lparr>cr_success = o_success timeout_outcome, cr_response = o_content timeout_outcome,
      cr_agent_type = agent_type hello_request, cr_capabilities = [''chat''],
      cr_metadata = o_metadata timeout_outcome, cr_error = o_error timeout_outcome\<rparr>"
    by (rule mp [OF tout_copy fixed_chat_steps])
  have t2: "chat_envelope_ok (fst (chat_with_agent message_str (fixed_env timeout_outcome)
       hello_request empty_registry))"
  proof (rule mp [OF tout_chat_ok], rule conjI)
    show "\<forall>x. fst (chat_try (fixed_env timeout_outcome) hello_request empty_registry) = Inl x
            \<longrightarrow> message_str x \<noteq> []"
      by (rule fixed_chat_try_no_fault)
    show "\<forall>k a out a'. execute (fixed_env timeout_outcome) k a
            (message hello_request) None = (Inr out, a') \<longrightarrow> outcome_ok out"
      by (simp add: fixed_env_def outcome_ok_def timeout_outcome_def error_empty_def)
  qed
  have t3: "search_envelope_ok (fst (search_and_summarize message_str
       (fixed_env timeout_outcome) rust_request empty_registry))"
  proof (rule mp [OF tout_search_ok], rule conjI)
    show "\<forall>x. fst (search_try (fixed_env timeout_outcome) rust_request empty_registry) = Inl x
            \<longrightarrow> message_str x \<noteq> []"
      by (rule fixed_search_try_no_fault) (simp add: timeout_outcome_def)
    show "\<forall>a out a'. execute (fixed_env timeout_outcome) Search a
            (search_prompt (query rust_request)) (Some True) = (Inr out, a') \<longrightarrow> outcome_ok out"
      by (simp add: fixed_env_def outcome_ok_def timeout_outcome_def error_empty_def)
  qed
  have c1': "fst (chat_with_agent message_str crashing_env hello_request empty_registry) =
     \<lparr>cr_success = False, cr_response = [], cr_agent_type = ''chat'', cr_capabilities = [],
      cr_metadata = [], cr_error = Some ''agent crashed''\<rparr>"
    using c1 by (simp add: hello_request_def)
  have c3': "fst (search_and_summarize message_str crashing_env rust_request empty_registry) =
     \<lparr>sr_success = False, sr_query = ''rust ownership'', sr_summary = [],
      sr_search_results = None, sr_sources_count = 0, sr_error = Some ''agent crashed''\<rparr>"
    using c3 by (simp add: rust_request_def)
  have p1': "fst (chat_with_agent message_str (fixed_env plain_outcome) hello_request
       empty_registry) =
     \<lparr>cr_success = True, cr_response = ''Hello!'', cr_agent_type = ''chat'',
      cr_capabilities = [''chat''], cr_metadata = [], cr_error = None\<rparr>"
    using p1 by (simp add: hello_request_def plain_outcome_def)
  have t1': "fst (chat_with_agent message_str (fixed_env timeout_outcome) hello_request
       empty_registry) =
     \<lparr>cr_success = False, cr_response = [], cr_agent_type = ''chat'',
      cr_capabilities = [''chat''], cr_metadata = [], cr_error = Some ''timeout''\<rparr>"
    using t1 by (simp add: hello_request_def timeout_outcome_def)
  show ?thesis
    by (intro conjI) (rule c1' c2 c3' c4 p1' p2 t1' t2 t3)+
qed



lemma set_agent_rel:
  "same_slots w w' \<Longrightarrow> same_slots (set_agent k a w) (set_agent k a w')"
  by (cases k) (simp_all add: same_slots_def set_agent_def)

lemma create_agent_rel:
  "same_slots w w' \<Longrightarrow> rel_sum (=) same_slots (create_agent env k w) (create_agent env k w')"
  by (cases k) (simp_all add: create_agent_def set_agent_def same_slots_def split: sum.splits)

lemma chat_init_rel:
  assumes "same_slots w w'"
  shows "rel_sum (=) same_slots (chat_init env ty w) (chat_init env ty w')"
proof -
  from assms have s: "search_agent w' = search_agent w" and c: "chat_agent w' = chat_agent w"
    by (simp_all add: same_slots_def)
  show ?thesis
    unfolding chat_init_def s c
    using create_agent_rel [OF assms] assms by simp
qed

lemma search_init_rel:
  assumes "same_slots w w'"
  shows "rel_sum (=) same_slots (search_init env w) (search_init env w')"
proof -
  from assms have s: "search_agent w' = search_agent w"
    by (simp add: same_slots_def)
  show ?thesis
    unfolding search_init_def s
    using create_agent_rel [OF assms] assms by simp
qed

lemma chat_select_same: "same_slots w w' \<Longrightarrow> chat_select ty w = chat_select ty w'"
  by (simp add: chat_select_def same_slots_def)

lemma chat_try_rel:
  assumes "same_slots w w'"
  shows "fst (chat_try env req w) = fst (chat_try env req w') \<and>
         same_slots (snd (chat_try env req w)) (snd (chat_try env req w'))"
proof -
  from chat_init_rel [OF assms, of env "agent_type req"]
  consider (err) e where "chat_init env (agent_type req) w = Inl e"
      and "chat_init env (agent_type req) w' = Inl e"
    | (ok) w1 w1' where "chat_init env (agent_type req) w = Inr w1"
      and "chat_init env (agent_type req) w' = Inr w1'" and "same_slots w1 w1'"
    by (auto elim: rel_sum.cases)
  then show ?thesis
  proof cases
    case err
    then show ?thesis using assms by (simp add: chat_try_def)
  next
    case ok
    note sel = chat_select_same [OF ok(3), of "agent_type req"]
    show ?thesis
    proof (cases "chat_select (agent_type req) w1'")
      case None
      then show ?thesis using ok sel by (simp add: chat_try_def)
    next
      case (Some ka)
      obtain k a where ka: "ka = (k, a)" by (cases ka)
      obtain res a' where ex: "execute env k a (message req) None = (res, a')"
        by (cases "execute env k a (message req) None")
      have "same_slots (set_agent k a' w1) (set_agent k a' w1')"
        by (rule set_agent_rel [OF ok(3)])
      then show ?thesis
        using ok(1,2) sel Some ka ex
        by (cases res; cases "get_capabilities env k a'") (simp_all add: chat_try_def)
    qed
  qed
qed

lemma same_slots_chat:
  assumes "same_slots w w'"
  shows "fst (chat_with_agent str env req w) = fst (chat_with_agent str env req w') \<and>
   same_slots (snd (chat_with_agent str env req w)) (snd (chat_with_agent str env req w'))"
proof -
  obtain r u where a: "chat_try env req w = (r, u)" by (cases "chat_try env req w")
  obtain r' u' where b: "chat_try env req w' = (r', u')" by (cases "chat_try env req w'")
  from chat_try_rel [OF assms, of env req] a b have "r = r'" and "same_slots u u'" by simp_all
  then show ?thesis
    using a b by (cases r') (simp_all add: chat_with_agent_def)
qed

lemma search_try_rel:
  assumes "same_slots w w'"
  shows "fst (search_try env req w) = fst (search_try env req w') \<and>
         same_slots (snd (search_try env req w)) (snd (search_try env req w'))"
proof -
  from search_init_rel [OF assms, of env]
  consider (err) e where "search_init env w = Inl e" and "search_init env w' = Inl e"
    | (ok) w1 w1' where "search_init env w = Inr w1"
      and "search_init env w' = Inr w1'" and "same_slots w1 w1'"
    by (auto elim: rel_sum.cases)
  then show ?thesis
  proof cases
    case err
    then show ?thesis using assms by (simp add: search_try_def)
  next
    case ok
    from ok(3) have sel: "search_agent w1 = search_agent w1'" by (simp add: same_slots_def)
    show ?thesis
    proof (cases "search_agent w1'")
      case None
      then show ?thesis using ok sel by (simp add: search_try_def)
    next
      case (Some a)
      obtain res a' where ex:
        "execute env Search a (search_prompt (query req)) (Some True) = (res, a')"
        by (cases "execute env Search a (search_prompt (query req)) (Some True)")
      have "same_slots (set_agent Search a' w1) (set_agent Search a' w1')"
        by (rule set_agent_rel [OF ok(3)])
      then show ?thesis
        using ok(1,2) sel Some ex
        by (cases res) (simp_all add: search_try_def Let_def split: sum.splits)
    qed
  qed
qed

lemma same_slots_search:
  assumes "same_slots w w'"
  shows "fst (search_and_summarize str env req w) = fst (search_and_summarize str env req w') \<and>
   same_slots (snd (search_and_summarize str env req w)) (snd (search_and_summarize str env req w'))"
proof -
  obtain r u where a: "search_try env req w = (r, u)" by (cases "search_try env req w")
  obtain r' u' where b: "search_try env req w' = (r', u')" by (cases "search_try env req w'")
  from search_try_rel [OF assms, of env req] a b have "r = r'" and "same_slots u u'" by simp_all
  then show ?thesis
    using a b by (cases r') (simp_all add: search_and_summarize_def)
qed

lemma capabilities_of_frame:
  "search_agent (snd (capabilities_of env k w)) = search_agent w \<and>
   chat_agent (snd (capabilities_of env k w)) = chat_agent w \<and>
   fst (capabilities_of env k w) = fst (capabilities_of env k w')"
  by (simp add: capabilities_of_def split: sum.splits)

lemma capabilities_frame:
  "same_slots (snd (get_agent_capabilities str env w)) w \<and>
   fst (get_agent_capabilities str env w) = fst (get_agent_capabilities str env w')"
proof -
  obtain r1 w1 where a: "capabilities_of env Search w = (r1, w1)"
    by (cases "capabilities_of env Search w")
  obtain r1' w1' where a': "capabilities_of env Search w' = (r1', w1')"
    by (cases "capabilities_of env Search w'")
  obtain r2 w2 where b: "capabilities_of env Chat w1 = (r2, w2)"
    by (cases "capabilities_of env Chat w1")
  obtain r2' w2' where b': "capabilities_of env Chat w1' = (r2', w2')"
    by (cases "capabilities_of env Chat w1'")
  from capabilities_of_frame [of env Search w w'] a a'
  have 1: "search_agent w1 = search_agent w" "chat_agent w1 = chat_agent w" "r1 = r1'"
    by simp_all
  from capabilities_of_frame [of env Chat w1 w1'] b b'
  have 2: "search_agent w2 = search_agent w1" "chat_agent w2 = chat_agent w1" "r2 = r2'"
    by simp_all
  show ?thesis
    using a a' b b' 1 2
    by (cases r1'; cases r2') (simp_all add: get_agent_capabilities_def same_slots_def)
qed

lemma capabilities_repeat:
  "same_slots (((\<lambda>u. snd (get_agent_capabilities str env u)) ^^ n) w) w"
proof (induction n)
  case 0
  show ?case by (simp add: same_slots_def)
next
  case (Suc n)
  have "same_slots (snd (get_agent_capabilities str env
          (((\<lambda>u. snd (get_agent_capabilities str env u)) ^^ n) w)))
          (((\<lambda>u. snd (get_agent_capabilities str env u)) ^^ n) w)"
    using capabilities_frame [of str env] by blast
  with Suc show ?case by (simp add: same_slots_def)
qed

text \<open>
  Claim C9. \<^verbatim>\<open>GET /agents/capabilities\<close> leaves both globals as they were; after any number
  \<open>n\<close> of calls the globals are unchanged, a further call returns the same body as the first,
  and a chat or search dispatch returns the same response and leaves the same globals as
  it would have without those calls.
\<close>

theorem capabilities_leaves_registry:
  "search_agent (snd (get_agent_capabilities str env w)) = search_agent w \<and>
   chat_agent (snd (get_agent_capabilities str env w)) = chat_agent w \<and>
   same_slots (((\<lambda>u. snd (get_agent_capabilities str env u)) ^^ n) w) w \<and>
   fst (get_agent_capabilities str env
          (((\<lambda>u. snd (get_agent_capabilities str env u)) ^^ n) w)) =
     fst (get_agent_capabilities str env w) \<and>
   fst (chat_with_agent str env creq
          (((\<lambda>u. snd (get_agent_capabilities str env u)) ^^ n) w)) =
     fst (chat_with_agent str env creq w) \<and>
   same_slots
     (snd (chat_with_agent str env creq
          (((\<lambda>u. snd (get_agent_capabilities str env u)) ^^ n) w)))
     (snd (chat_with_agent str env creq w)) \<and>
   fst (search_and_summarize str env sreq
          (((\<lambda>u. snd (get_agent_capabilities str env u)) ^^ n) w)) =
     fst (search_and_summarize str env sreq w) \<and>
   same_slots
     (snd (search_and_summarize str env sreq
          (((\<lambda>u. snd (get_agent_capabilities str env u)) ^^ n) w)))
     (snd (search_and_summarize str env sreq w))"
proof -
  let ?w = "((\<lambda>u. snd (get_agent_capabilities str env u)) ^^ n) w"
  have r: "same_slots ?w w" by (rule capabilities_repeat)
  have f: "same_slots (snd (get_agent_capabilities str env w)) w"
    using capabilities_frame [of str env w w] by blast
  have g: "fst (get_agent_capabilities str env ?w) = fst (get_agent_capabilities str env w)"
    using capabilities_frame [of str env ?w w] by blast
  from f r g same_slots_chat [OF r, of str env creq] same_slots_search [OF r, of str env sreq]
  show ?thesis
    by (simp add: same_slots_def)
qed

end
